theory Spec2Isabelle
  imports Complex_Main
begin

section \<open>JavaScript numbers and values\<close>

text \<open>
  The statistical processor (\<^verbatim>\<open>Processor\<close>) and the mock data generator
  (\<^verbatim>\<open>DataFetcher.generateMockData\<close>) compute on JavaScript numbers, which are IEEE 754
  double-precision values. A finite number is the real it denotes; \<open>NaN\<close> and the two
  infinities are values of their own. Every arithmetic operation rounds its exact result
  to the nearest double, ties to even, and overflows to an infinity. Negative zero is not
  distinguished from zero; a zero divisor is taken as \<open>+0\<close>.
\<close>

datatype jsnum = Fin real | PInf | NInf | NaN

datatype jsval = Null | Undefined | Number jsnum

fun toNumber :: "jsval \<Rightarrow> jsnum" where
  "toNumber Null = Fin 0"
| "toNumber Undefined = NaN"
| "toNumber (Number x) = x"

subsection \<open>Rounding to double precision\<close>

text \<open>The integer nearest to \<open>y\<close>, the even one when two are equally near.\<close>

definition rne :: "real \<Rightarrow> int" where
  "rne y =
     (let f = \<lfloor>y\<rfloor>; d = y - of_int f
      in if d < 1 / 2 then f
         else if 1 / 2 < d then f + 1
         else if even f then f else f + 1)"

text \<open>
  The binary exponent of a magnitude \<open>a\<close>: the \<open>E\<close> between \<open>-1022\<close> and \<open>1023\<close> with
  \<open>2 ^ E \<le> a < 2 ^ (E + 1)\<close>, found by bisection; \<open>-1022\<close> for the subnormal magnitudes
  below that range and \<open>1023\<close> for those above it.
\<close>

fun bisect :: "nat \<Rightarrow> int \<Rightarrow> int \<Rightarrow> real \<Rightarrow> int" where
  "bisect 0 lo hi a = lo"
| "bisect (Suc n) lo hi a =
     (if hi \<le> lo then lo
      else let mid = (lo + hi + 1) div 2
           in if 2 powi mid \<le> a then bisect n mid hi a else bisect n lo (mid - 1) a)"

definition binade :: "real \<Rightarrow> int" where
  "binade a = bisect 11 (- 1022) 1023 a"

text \<open>
  Rounding to 53 significant bits: the multiple of \<open>2 ^ (E - 52)\<close> nearest to \<open>x\<close>. A
  result of magnitude \<open>2 ^ 1024\<close> or more is an overflow.
\<close>

definition round_double :: "real \<Rightarrow> real" where
  "round_double x =
     (let e = binade \<bar>x\<bar> - 52 in of_int (rne (x / 2 powi e)) * 2 powi e)"

definition fl :: "real \<Rightarrow> jsnum" where
  "fl x =
     (let r = round_double x
      in if 2 ^ 1024 \<le> r then PInf else if r \<le> - (2 ^ 1024) then NInf else Fin r)"

subsection \<open>Arithmetic and comparison\<close>

fun js_neg :: "jsnum \<Rightarrow> jsnum" where
  "js_neg (Fin a) = Fin (- a)"
| "js_neg PInf = NInf"
| "js_neg NInf = PInf"
| "js_neg NaN = NaN"

fun js_add :: "jsnum \<Rightarrow> jsnum \<Rightarrow> jsnum" where
  "js_add (Fin a) (Fin b) = fl (a + b)"
| "js_add (Fin a) PInf = PInf"
| "js_add (Fin a) NInf = NInf"
| "js_add PInf (Fin b) = PInf"
| "js_add PInf PInf = PInf"
| "js_add PInf NInf = NaN"
| "js_add NInf (Fin b) = NInf"
| "js_add NInf NInf = NInf"
| "js_add NInf PInf = NaN"
| "js_add NaN y = NaN"
| "js_add x NaN = NaN"

definition js_sub :: "jsnum \<Rightarrow> jsnum \<Rightarrow> jsnum" where
  "js_sub x y = js_add x (js_neg y)"

text \<open>An infinity of the given sign (\<open>True\<close> for positive) times a finite factor.\<close>

definition inf_times :: "bool \<Rightarrow> real \<Rightarrow> jsnum" where
  "inf_times pos r =
     (if r = 0 then NaN else if (0 < r) = pos then PInf else NInf)"

fun js_mul :: "jsnum \<Rightarrow> jsnum \<Rightarrow> jsnum" where
  "js_mul (Fin a) (Fin b) = fl (a * b)"
| "js_mul (Fin a) PInf = inf_times True a"
| "js_mul (Fin a) NInf = inf_times False a"
| "js_mul PInf (Fin b) = inf_times True b"
| "js_mul NInf (Fin b) = inf_times False b"
| "js_mul PInf PInf = PInf"
| "js_mul PInf NInf = NInf"
| "js_mul NInf PInf = NInf"
| "js_mul NInf NInf = PInf"
| "js_mul NaN y = NaN"
| "js_mul x NaN = NaN"

fun js_div :: "jsnum \<Rightarrow> jsnum \<Rightarrow> jsnum" where
  "js_div (Fin a) (Fin b) =
     (if b = 0 then (if a = 0 then NaN else if 0 < a then PInf else NInf)
      else fl (a / b))"
| "js_div (Fin a) PInf = Fin 0"
| "js_div (Fin a) NInf = Fin 0"
| "js_div PInf (Fin b) = (if 0 \<le> b then PInf else NInf)"
| "js_div NInf (Fin b) = (if 0 \<le> b then NInf else PInf)"
| "js_div PInf PInf = NaN"
| "js_div PInf NInf = NaN"
| "js_div NInf PInf = NaN"
| "js_div NInf NInf = NaN"
| "js_div NaN y = NaN"
| "js_div x NaN = NaN"

text \<open>The relational operators: every comparison with \<open>NaN\<close> is false.\<close>

fun js_lt :: "jsnum \<Rightarrow> jsnum \<Rightarrow> bool" where
  "js_lt (Fin a) (Fin b) = (a < b)"
| "js_lt (Fin a) PInf = True"
| "js_lt NInf (Fin b) = True"
| "js_lt NInf PInf = True"
| "js_lt x y = False"

definition js_gt :: "jsnum \<Rightarrow> jsnum \<Rightarrow> bool" where
  "js_gt x y = js_lt y x"

text \<open>Strict equality \<^verbatim>\<open>===\<close> of two numbers: \<open>NaN\<close> equals nothing, itself included.\<close>

definition js_eq :: "jsnum \<Rightarrow> jsnum \<Rightarrow> bool" where
  "js_eq x y = (x = y \<and> x \<noteq> NaN)"

definition js_le :: "jsnum \<Rightarrow> jsnum \<Rightarrow> bool" where
  "js_le x y = (js_lt x y \<or> js_eq x y)"

definition js_ge :: "jsnum \<Rightarrow> jsnum \<Rightarrow> bool" where
  "js_ge x y = js_le y x"

fun js_floor :: "jsnum \<Rightarrow> jsnum" where
  "js_floor (Fin a) = Fin (of_int \<lfloor>a\<rfloor>)"
| "js_floor x = x"

fun js_ceil :: "jsnum \<Rightarrow> jsnum" where
  "js_ceil (Fin a) = Fin (of_int \<lceil>a\<rceil>)"
| "js_ceil x = x"

fun js_sqrt :: "jsnum \<Rightarrow> jsnum" where
  "js_sqrt (Fin a) = (if a < 0 then NaN else fl (sqrt a))"
| "js_sqrt PInf = PInf"
| "js_sqrt NInf = NaN"
| "js_sqrt NaN = NaN"

text \<open>The global \<^verbatim>\<open>isNaN(v)\<close>: the argument is first converted to a number.\<close>

definition js_isNaN :: "jsval \<Rightarrow> bool" where
  "js_isNaN v = (toNumber v = NaN)"

text \<open>
  The length of an array, as a number: a length is below \<open>2 ^ 32\<close> and so an exact double.
\<close>

definition js_nat :: "nat \<Rightarrow> jsnum" where
  "js_nat n = Fin (real n)"

subsection \<open>Fixed-point rendering\<close>

text \<open>
  \<^verbatim>\<open>x.toFixed(f)\<close> returns a string. The string is kept structured: \<open>SDigits neg n f\<close>
  is the decimal numeral of \<open>n / 10 ^ f\<close> with \<open>f\<close> fraction digits and a leading minus
  sign when \<open>neg\<close>; \<open>n\<close> is the integer nearest to \<open>\<bar>x\<bar> * 10 ^ f\<close> for the exact value \<open>x\<close>
  of the double, the larger one on a tie. From \<open>10 ^ 21\<close> on, \<^verbatim>\<open>toFixed\<close> falls back to
  the plain number-to-string conversion, kept as \<open>SPlain\<close>.
\<close>

datatype fixedstr =
    SDigits bool nat nat
  | SPlain real
  | SNaN
  | SInfinity
  | SNegInfinity

fun toFixed :: "nat \<Rightarrow> jsnum \<Rightarrow> fixedstr" where
  "toFixed f (Fin r) =
     (if 10 ^ 21 \<le> \<bar>r\<bar> then SPlain r
      else SDigits (r < 0) (nat \<lfloor>\<bar>r\<bar> * 10 ^ f + 1 / 2\<rfloor>) f)"
| "toFixed f PInf = SInfinity"
| "toFixed f NInf = SNegInfinity"
| "toFixed f NaN = SNaN"

text \<open>
  The number a rendered string converts back to, as \<^verbatim>\<open>parseFloat\<close> does and as the
  relational operators do when one operand is such a string and the other a number: the
  double nearest to the decimal numeral.
\<close>

fun str_toNumber :: "fixedstr \<Rightarrow> jsnum" where
  "str_toNumber (SDigits neg n f) =
     fl ((if neg then - 1 else 1) * real n / 10 ^ f)"
| "str_toNumber (SPlain r) = Fin r"
| "str_toNumber SNaN = NaN"
| "str_toNumber SInfinity = PInf"
| "str_toNumber SNegInfinity = NInf"

section \<open>Samples\<close>

text \<open>
  A JavaScript string is a sequence of UTF-16 code units. The strings whose characters
  the code inspects (the date of a sample, the keys of an object) are lists of code
  units; \<open>units\<close> gives the code units of an ASCII literal.
\<close>

type_synonym jsstring = "nat list"

definition units :: "string \<Rightarrow> jsstring" where
  "units s = map of_char s"

text \<open>
  A data point \<^verbatim>\<open>{date, value, year, dayOfYear}\<close>. The value may be \<^verbatim>\<open>null\<close> or
  \<^verbatim>\<open>undefined\<close> (absent); the year field, an integer, may be absent.
\<close>

record sample =
  s_date :: jsstring
  s_value :: jsval
  s_year :: "int option"
  s_dayOfYear :: int

text \<open>
  The filter shared by \<^verbatim>\<open>computeStats\<close> and \<^verbatim>\<open>assessDataQuality\<close>:
  \<^verbatim>\<open>v !== null && v !== undefined && !isNaN(v)\<close>.
\<close>

definition is_valid :: "jsval \<Rightarrow> bool" where
  "is_valid v = (v \<noteq> Null \<and> v \<noteq> Undefined \<and> \<not> js_isNaN v)"

section \<open>Quality assessor\<close>

record qualityResult =
  q_total :: nat
  q_valid :: nat
  q_missing :: nat
  q_missingPercent :: fixedstr
  q_quality :: string
  q_warning :: "string option"

definition assessDataQuality :: "sample list \<Rightarrow> qualityResult" where
  "assessDataQuality dataPoints =
     (let total = length dataPoints;
          valid = length (filter (\<lambda>d. is_valid (s_value d)) dataPoints);
          missing = total - valid;
          missingPercent =
            toFixed 1 (js_mul (js_div (js_nat missing) (js_nat total)) (Fin 100))
      in \<lparr> q_total = total,
           q_valid = valid,
           q_missing = missing,
           q_missingPercent = missingPercent,
           q_quality =
             (if js_lt (str_toNumber missingPercent) (Fin 10) then ''good''
              else if js_lt (str_toNumber missingPercent) (Fin 30) then ''fair''
              else ''poor''),
           q_warning =
             (if js_gt (str_toNumber missingPercent) (Fin 30)
              then Some ''High percentage of missing data may affect reliability''
              else None) \<rparr>)"

section \<open>Descriptive statistics engine\<close>

text \<open>
  Reading \<^verbatim>\<open>xs[i]\<close>: outside the array the result is \<^verbatim>\<open>undefined\<close>. An index that is
  a number selects an element only when it is a non-negative integer.
\<close>

definition at_index :: "jsval list \<Rightarrow> int \<Rightarrow> jsval" where
  "at_index xs i = (if 0 \<le> i \<and> i < int (length xs) then xs ! nat i else Undefined)"

fun at_num :: "jsval list \<Rightarrow> jsnum \<Rightarrow> jsval" where
  "at_num xs (Fin r) = (if r = of_int \<lfloor>r\<rfloor> then at_index xs \<lfloor>r\<rfloor> else Undefined)"
| "at_num xs x = Undefined"

text \<open>\<^verbatim>\<open>values.reduce((sum, v) => sum + v, 0) / values.length\<close>\<close>

definition mean :: "jsval list \<Rightarrow> jsnum" where
  "mean values =
     js_div (foldl (\<lambda>sum v. js_add sum (toNumber v)) (Fin 0) values)
            (js_nat (length values))"

definition median :: "jsval list \<Rightarrow> jsval" where
  "median sortedValues =
     (let mid = int (length sortedValues div 2)
      in if length sortedValues mod 2 = 0
         then Number (js_div (js_add (toNumber (at_index sortedValues (mid - 1)))
                                     (toNumber (at_index sortedValues mid)))
                             (Fin 2))
         else at_index sortedValues mid)"

text \<open>\<^verbatim>\<open>Math.pow(x, 2)\<close>\<close>

definition js_pow2 :: "jsnum \<Rightarrow> jsnum" where
  "js_pow2 x = js_mul x x"

definition standardDeviation :: "jsval list \<Rightarrow> jsnum" where
  "standardDeviation values =
     (let avg = mean values;
          squareDiffs = map (\<lambda>v. Number (js_pow2 (js_sub (toNumber v) avg))) values;
          avgSquareDiff = mean squareDiffs
      in js_sqrt avgSquareDiff)"

definition percentile :: "jsval list \<Rightarrow> jsnum \<Rightarrow> jsval" where
  "percentile sortedValues p =
     (if length sortedValues = 0 then Null
      else
        let index = js_mul (js_div p (Fin 100))
                           (js_sub (js_nat (length sortedValues)) (Fin 1));
            lower = js_floor index;
            upper = js_ceil index;
            weight = js_sub index lower
        in if js_eq lower upper then at_num sortedValues lower
           else Number (js_add (js_mul (toNumber (at_num sortedValues lower))
                                       (js_sub (Fin 1) weight))
                               (js_mul (toNumber (at_num sortedValues upper)) weight)))"

subsection \<open>Histogram builder\<close>

text \<open>
  \<^verbatim>\<open>Math.min(...values)\<close> and \<^verbatim>\<open>Math.max(...values)\<close>: each argument is converted to a
  number, and one \<open>NaN\<close> makes the result \<open>NaN\<close>.
\<close>

fun js_min2 :: "jsnum \<Rightarrow> jsnum \<Rightarrow> jsnum" where
  "js_min2 NaN y = NaN"
| "js_min2 x NaN = NaN"
| "js_min2 x y = (if js_lt y x then y else x)"

fun js_max2 :: "jsnum \<Rightarrow> jsnum \<Rightarrow> jsnum" where
  "js_max2 NaN y = NaN"
| "js_max2 x NaN = NaN"
| "js_max2 x y = (if js_lt x y then y else x)"

definition math_min :: "jsval list \<Rightarrow> jsnum" where
  "math_min values = foldl (\<lambda>m v. js_min2 m (toNumber v)) PInf values"

definition math_max :: "jsval list \<Rightarrow> jsnum" where
  "math_max values = foldl (\<lambda>m v. js_max2 m (toNumber v)) NInf values"

text \<open>
  \<^verbatim>\<open>counts[binIndex]++\<close>. An index inside the array increments that element. An index
  beyond the end extends the array (the old value is \<^verbatim>\<open>undefined\<close>, so the new one is
  \<open>NaN\<close>). A key that is not an array index (\<open>NaN\<close>, a fraction, a negative number, an
  infinity) sets a named property of the array object and leaves every element as it is.
\<close>

fun incr_at :: "jsval list \<Rightarrow> jsnum \<Rightarrow> jsval list" where
  "incr_at counts (Fin r) =
     (if r = of_int \<lfloor>r\<rfloor> \<and> 0 \<le> r
      then (let k = nat \<lfloor>r\<rfloor>
            in if k < length counts
               then counts[k := Number (js_add (toNumber (counts ! k)) (Fin 1))]
               else counts @ replicate (k - length counts) Undefined @ [Number NaN])
      else counts)"
| "incr_at counts x = counts"

record histogram =
  h_bins :: "jsnum list"
  h_counts :: "jsval list"
  h_binWidth :: "jsnum option"

text \<open>The body of the \<^verbatim>\<open>forEach\<close> that counts one value.\<close>

definition count_value :: "nat \<Rightarrow> jsnum \<Rightarrow> jsnum \<Rightarrow> jsval list \<Rightarrow> jsval \<Rightarrow> jsval list" where
  "count_value numBins mn binWidth counts v =
     (let binIndex = js_floor (js_div (js_sub (toNumber v) mn) binWidth);
          binIndex = (if js_ge binIndex (js_nat numBins)
                      then js_sub (js_nat numBins) (Fin 1) else binIndex);
          binIndex = (if js_lt binIndex (Fin 0) then Fin 0 else binIndex)
      in incr_at counts binIndex)"

text \<open>\<^verbatim>\<open>parseFloat(x.toFixed(2))\<close>\<close>

definition round2 :: "jsnum \<Rightarrow> jsnum" where
  "round2 x = str_toNumber (toFixed 2 x)"

text \<open>
  \<open>numBins\<close> is a natural number: \<^verbatim>\<open>new Array(numBins)\<close> accepts nothing else.
\<close>

definition createHistogram :: "jsval list \<Rightarrow> nat \<Rightarrow> histogram" where
  "createHistogram values numBins =
     (if length values = 0 then \<lparr> h_bins = [], h_counts = [], h_binWidth = None \<rparr>
      else
        let mn = math_min values;
            mx = math_max values;
            binWidth = js_div (js_sub mx mn) (js_nat numBins);
            bins = map (\<lambda>i. js_add mn (js_mul (js_nat i) binWidth)) [0..<Suc numBins];
            counts = foldl (count_value numBins mn binWidth)
                           (replicate numBins (Number (Fin 0))) values
        in \<lparr> h_bins = map round2 bins,
             h_counts = counts,
             h_binWidth = Some (round2 binWidth) \<rparr>)"

text \<open>The sum of the counts of a histogram, as JavaScript would add them up.\<close>

definition counts_sum :: "histogram \<Rightarrow> jsnum" where
  "counts_sum h = foldl (\<lambda>sum c. js_add sum (toNumber c)) (Fin 0) (h_counts h)"

subsection \<open>computeStats\<close>

text \<open>
  \<^verbatim>\<open>[...values].sort((a, b) => a - b)\<close>: a stable sort; \<open>a\<close> stays before \<open>b\<close> unless the
  comparator's result is positive.
\<close>

definition cmp_positive :: "jsval \<Rightarrow> jsval \<Rightarrow> bool" where
  "cmp_positive a b = js_gt (js_sub (toNumber a) (toNumber b)) (Fin 0)"

fun insert_sorted :: "jsval \<Rightarrow> jsval list \<Rightarrow> jsval list" where
  "insert_sorted x [] = [x]"
| "insert_sorted x (y # ys) =
     (if cmp_positive x y then y # insert_sorted x ys else x # y # ys)"

definition sort_values :: "jsval list \<Rightarrow> jsval list" where
  "sort_values xs = foldr insert_sorted xs []"

record percentiles =
  p10 :: jsval
  p25 :: jsval
  p50 :: jsval
  p75 :: jsval
  p90 :: jsval
  p95 :: jsval
  p99 :: jsval

record exceedance =
  e_threshold :: jsval
  e_probability :: jsnum
  e_count :: nat
  e_percentage :: fixedstr

record stats =
  st_count :: nat
  st_mean :: jsnum
  st_median :: jsval
  st_std :: jsnum
  st_min :: jsval
  st_max :: jsval
  st_percentiles :: percentiles
  st_exceedance :: "exceedance option"
  st_distribution :: histogram

text \<open>
  The two shapes \<^verbatim>\<open>computeStats\<close> returns: \<^verbatim>\<open>{error, count}\<close> when no value is valid,
  the full statistics object otherwise.
\<close>

datatype statsResult = NoData string nat | Stats stats

definition computeStats :: "sample list \<Rightarrow> jsval \<Rightarrow> statsResult" where
  "computeStats dataPoints threshold_arg =
     (let threshold = (if threshold_arg = Undefined then Null else threshold_arg);
          values = filter is_valid (map s_value dataPoints)
      in if length values = 0 then NoData ''No valid data points'' 0
         else
           let sorted = sort_values values;
               exceed =
                 (if threshold \<noteq> Null
                  then
                    let exceedCount =
                          length (filter (\<lambda>v. js_gt (toNumber v) (toNumber threshold)) values)
                    in Some \<lparr> e_threshold = threshold,
                              e_probability =
                                js_div (js_nat exceedCount) (js_nat (length values)),
                              e_count = exceedCount,
                              e_percentage =
                                toFixed 1
                                  (js_mul (js_div (js_nat exceedCount)
                                                  (js_nat (length values)))
                                          (Fin 100)) \<rparr>
                  else None)
           in Stats \<lparr> st_count = length values,
                       st_mean = mean values,
                       st_median = median sorted,
                       st_std = standardDeviation values,
                       st_min = at_index sorted 0,
                       st_max = at_index sorted (int (length sorted) - 1),
                       st_percentiles =
                         \<lparr> p10 = percentile sorted (Fin 10),
                           p25 = percentile sorted (Fin 25),
                           p50 = percentile sorted (Fin 50),
                           p75 = percentile sorted (Fin 75),
                           p90 = percentile sorted (Fin 90),
                           p95 = percentile sorted (Fin 95),
                           p99 = percentile sorted (Fin 99) \<rparr>,
                       st_exceedance = exceed,
                       st_distribution = createHistogram values 20 \<rparr>)"

section \<open>Trend analyzer\<close>

text \<open>
  \<^verbatim>\<open>parseInt(str)\<close> without a radix: leading white space (the white space and line
  terminator code units of ECMAScript) is skipped, a sign is read, a prefix \<^verbatim>\<open>0x\<close>
  selects base 16, and the longest run of digits is read; the result is the double
  nearest to the integer they denote, or \<open>NaN\<close> when there is no digit.
\<close>

definition is_space :: "nat \<Rightarrow> bool" where
  "is_space c =
     (c \<in> set [0x09, 0x0A, 0x0B, 0x0C, 0x0D, 0x20, 0xA0, 0x1680, 0x2028, 0x2029, 0x202F,
               0x205F, 0x3000, 0xFEFF]
      \<or> (0x2000 \<le> c \<and> c \<le> 0x200A))"

definition digit_val :: "nat \<Rightarrow> nat option" where
  "digit_val c =
     (if 48 \<le> c \<and> c \<le> 57 then Some (c - 48)
      else if 97 \<le> c \<and> c \<le> 122 then Some (c - 87)
      else if 65 \<le> c \<and> c \<le> 90 then Some (c - 55)
      else None)"

definition is_digit_in :: "nat \<Rightarrow> nat \<Rightarrow> bool" where
  "is_digit_in radix c = (case digit_val c of Some d \<Rightarrow> d < radix | None \<Rightarrow> False)"

definition digits_value :: "nat \<Rightarrow> jsstring \<Rightarrow> nat" where
  "digits_value radix ds =
     foldl (\<lambda>acc c. case digit_val c of Some d \<Rightarrow> acc * radix + d | None \<Rightarrow> acc) 0 ds"

definition parseInt :: "jsstring \<Rightarrow> jsnum" where
  "parseInt str =
     (let s = dropWhile is_space str;
          neg = (s \<noteq> [] \<and> hd s = of_char CHR ''-'');
          s = (if s \<noteq> [] \<and> (hd s = of_char CHR ''+'' \<or> hd s = of_char CHR ''-'')
               then tl s else s);
          hex = (take 2 s = units ''0x'' \<or> take 2 s = units ''0X'');
          radix = (if hex then 16 else 10);
          s = (if hex then drop 2 s else s);
          ds = takeWhile (is_digit_in radix) s
      in if ds = [] then NaN
         else fl ((if neg then - 1 else 1) * real (digits_value radix ds)))"

text \<open>
  The property key a number turns into. An integer below \<open>10 ^ 21\<close> in magnitude, which
  every calendar year is, is written as its decimal numeral; the exponent notation of
  larger numbers and the digits of a fraction are not modelled.
\<close>

fun show_nat :: "nat \<Rightarrow> jsstring" where
  "show_nat n = (if n < 10 then [48 + n] else show_nat (n div 10) @ [48 + n mod 10])"

declare show_nat.simps [simp del]

fun year_key :: "jsnum \<Rightarrow> jsstring" where
  "year_key NaN = units ''NaN''"
| "year_key PInf = units ''Infinity''"
| "year_key NInf = units ''-Infinity''"
| "year_key (Fin r) =
     (if r < 0 then of_char CHR ''-'' # show_nat (nat \<lfloor>- r\<rfloor>) else show_nat (nat \<lfloor>r\<rfloor>))"

text \<open>
  \<^verbatim>\<open>point.year || parseInt(point.date.split('-')[0])\<close>: a year that is absent or zero is
  falsy and the date's first field is parsed instead.
\<close>

definition year_of :: "sample \<Rightarrow> jsnum" where
  "year_of point =
     (case s_year point of
        Some y \<Rightarrow> if y \<noteq> 0 then Fin (of_int y)
                  else parseInt (takeWhile (\<lambda>c. c \<noteq> of_char CHR ''-'') (s_date point))
      | None \<Rightarrow> parseInt (takeWhile (\<lambda>c. c \<noteq> of_char CHR ''-'') (s_date point)))"

text \<open>
  The object \<^verbatim>\<open>yearlyMeans\<close>, as an association list from key to the values pushed so
  far: \<^verbatim>\<open>if (!yearlyMeans[year]) yearlyMeans[year] = []; yearlyMeans[year].push(value)\<close>.
\<close>

fun push_value ::
  "jsstring \<Rightarrow> jsval \<Rightarrow> (jsstring \<times> jsval list) list \<Rightarrow> (jsstring \<times> jsval list) list" where
  "push_value k v [] = [(k, [v])]"
| "push_value k v ((k', vs) # rest) =
     (if k = k' then (k', vs @ [v]) # rest else (k', vs) # push_value k v rest)"

definition group_by_year :: "sample list \<Rightarrow> (jsstring \<times> jsval list) list" where
  "group_by_year dataPoints =
     foldl (\<lambda>yearlyMeans point.
              push_value (year_key (year_of point)) (s_value point) yearlyMeans)
           [] dataPoints"

text \<open>
  \<^verbatim>\<open>Object.keys(yearlyMeans).sort()\<close>: the default sort compares the keys as strings,
  code unit by code unit. The keys are distinct, so the order in which \<^verbatim>\<open>Object.keys\<close>
  lists them does not show in the result.
\<close>

fun str_lt :: "jsstring \<Rightarrow> jsstring \<Rightarrow> bool" where
  "str_lt [] [] = False"
| "str_lt [] (y # ys) = True"
| "str_lt (x # xs) [] = False"
| "str_lt (x # xs) (y # ys) =
     (if x < y then True else if y < x then False else str_lt xs ys)"

fun insert_key ::
  "jsstring \<times> jsval list \<Rightarrow> (jsstring \<times> jsval list) list \<Rightarrow> (jsstring \<times> jsval list) list" where
  "insert_key x [] = [x]"
| "insert_key x (y # ys) =
     (if str_lt (fst y) (fst x) then y # insert_key x ys else x # y # ys)"

definition sort_keys :: "(jsstring \<times> jsval list) list \<Rightarrow> (jsstring \<times> jsval list) list" where
  "sort_keys kvs = foldr insert_key kvs []"

record yearlyMean =
  ym_year :: jsnum
  ym_mean :: jsnum
  ym_count :: nat

definition linearRegression :: "yearlyMean list \<Rightarrow> jsnum" where
  "linearRegression data =
     (let n = length data
      in if n < 2 then Fin 0
         else
           let sumX = foldl (\<lambda>sum d. js_add sum (ym_year d)) (Fin 0) data;
               sumY = foldl (\<lambda>sum d. js_add sum (ym_mean d)) (Fin 0) data;
               sumXY = foldl (\<lambda>sum d. js_add sum (js_mul (ym_year d) (ym_mean d))) (Fin 0) data;
               sumX2 = foldl (\<lambda>sum d. js_add sum (js_mul (ym_year d) (ym_year d))) (Fin 0) data
           in js_div (js_sub (js_mul (js_nat n) sumXY) (js_mul sumX sumY))
                     (js_sub (js_mul (js_nat n) sumX2) (js_mul sumX sumX)))"

record trend =
  t_slope :: fixedstr
  t_direction :: string
  t_changePerDecade :: fixedstr

record trendResult =
  tr_yearlyMeans :: "yearlyMean list"
  tr_trend :: trend

definition analyzeTrend :: "sample list \<Rightarrow> trendResult" where
  "analyzeTrend dataPoints =
     (let yearlyMeans = group_by_year dataPoints;
          trendData =
            map (\<lambda>(year, vals).
                   \<lparr> ym_year = parseInt year,
                     ym_mean = mean vals,
                     ym_count = length vals \<rparr>)
                (sort_keys yearlyMeans);
          slope = linearRegression trendData
      in \<lparr> tr_yearlyMeans = trendData,
           tr_trend =
             \<lparr> t_slope = toFixed 4 slope,
               t_direction =
                 (if js_gt slope (Fin 0) then ''increasing''
                  else if js_lt slope (Fin 0) then ''decreasing'' else ''stable''),
               t_changePerDecade = toFixed 2 (js_mul slope (Fin 10)) \<rparr> \<rparr>)"

section \<open>Narrative summarizer\<close>

text \<open>
  Reading a property of the object \<^verbatim>\<open>computeStats\<close> returned: a property the object
  does not have reads as \<^verbatim>\<open>undefined\<close>. Calling \<^verbatim>\<open>toFixed\<close> on \<^verbatim>\<open>undefined\<close> or
  \<^verbatim>\<open>null\<close> raises a \<^verbatim>\<open>TypeError\<close>.
\<close>

datatype jserror = TypeError

fun stats_exceedance :: "statsResult \<Rightarrow> exceedance option" where
  "stats_exceedance (NoData err c) = None"
| "stats_exceedance (Stats s) = st_exceedance s"

fun stats_count :: "statsResult \<Rightarrow> nat" where
  "stats_count (NoData err c) = c"
| "stats_count (Stats s) = st_count s"

fun stats_mean :: "statsResult \<Rightarrow> jsval" where
  "stats_mean (NoData err c) = Undefined"
| "stats_mean (Stats s) = Number (st_mean s)"

fun stats_median :: "statsResult \<Rightarrow> jsval" where
  "stats_median (NoData err c) = Undefined"
| "stats_median (Stats s) = st_median s"

fun stats_min :: "statsResult \<Rightarrow> jsval" where
  "stats_min (NoData err c) = Undefined"
| "stats_min (Stats s) = st_min s"

fun stats_max :: "statsResult \<Rightarrow> jsval" where
  "stats_max (NoData err c) = Undefined"
| "stats_max (Stats s) = st_max s"

fun call_toFixed :: "nat \<Rightarrow> jsval \<Rightarrow> jserror + fixedstr" where
  "call_toFixed f (Number x) = Inr (toFixed f x)"
| "call_toFixed f v = Inl TypeError"

text \<open>
  The summary is a template literal; it is kept as the list of its pieces, the
  interpolated values unrendered.
\<close>

datatype piece = Text string | Fixed fixedstr | Val jsval | Count nat

definition generateSummary :: "statsResult \<Rightarrow> string \<Rightarrow> jsval \<Rightarrow> jserror + piece list" where
  "generateSummary stats variable threshold =
     (case stats_exceedance stats of
        Some e \<Rightarrow>
          (let prob = e_percentage e;
               summary =
                 [Text ''There is a '', Fixed prob, Text ''% chance that '', Text variable,
                  Text '' will exceed '', Val threshold,
                  Text '' based on historical data ('', Count (stats_count stats),
                  Text '' observations).'']
           in Inr (summary @
                   [Text (if js_lt (str_toNumber prob) (Fin 10) then '' This is a rare occurrence.''
                          else if js_lt (str_toNumber prob) (Fin 30)
                          then '' This happens occasionally.''
                          else if js_lt (str_toNumber prob) (Fin 60)
                          then '' This is fairly common.''
                          else '' This is very likely.'')]))
      | None \<Rightarrow>
          (case call_toFixed 1 (stats_mean stats) of
             Inl err \<Rightarrow> Inl err
           | Inr mean_s \<Rightarrow>
          (case call_toFixed 1 (stats_median stats) of
             Inl err \<Rightarrow> Inl err
           | Inr median_s \<Rightarrow>
          (case call_toFixed 1 (stats_min stats) of
             Inl err \<Rightarrow> Inl err
           | Inr min_s \<Rightarrow>
          (case call_toFixed 1 (stats_max stats) of
             Inl err \<Rightarrow> Inl err
           | Inr max_s \<Rightarrow>
               Inr [Text ''Historical '', Text variable, Text '': mean='', Fixed mean_s,
                    Text '', median='', Fixed median_s, Text '', range=['', Fixed min_s,
                    Text '', '', Fixed max_s, Text '']''])))))"

section \<open>Sample window assembler\<close>

text \<open>
  \<^verbatim>\<open>DataFetcher.generateMockData\<close>. The successive results of \<^verbatim>\<open>Math.random()\<close> are a
  stream \<open>rnd\<close> of doubles, each in \<open>[0, 1)\<close>, read through a counter that the two
  iterations pass along. The date string comes from the host's \<^verbatim>\<open>Date\<close> object and its
  time zone (\<^verbatim>\<open>dayOfYearToDate(actualYear, actualDay).toISOString().split('T')[0]\<close>); it
  is the parameter \<open>dateOf\<close>. The arguments \<^verbatim>\<open>lat\<close> and \<^verbatim>\<open>lon\<close> are not read by the
  function.
\<close>

record yearRange =
  yr_start :: int
  yr_end :: int

text \<open>
  A decimal literal of the source denotes the nearest double. \<^verbatim>\<open>Math.PI\<close> is the double
  nearest to \<open>\<pi>\<close>; \<^verbatim>\<open>Math.sin\<close> and \<^verbatim>\<open>Math.abs\<close> are taken as correctly rounded.
\<close>

definition lit :: "real \<Rightarrow> jsnum" where
  "lit r = fl r"

fun js_sin :: "jsnum \<Rightarrow> jsnum" where
  "js_sin (Fin a) = fl (sin a)"
| "js_sin x = NaN"

fun js_abs :: "jsnum \<Rightarrow> jsnum" where
  "js_abs (Fin a) = Fin \<bar>a\<bar>"
| "js_abs NaN = NaN"
| "js_abs x = PInf"

text \<open>\<^verbatim>\<open>config.variables[variable].conversion\<close>, when the variable is configured.\<close>

definition conversion :: "string \<Rightarrow> (jsnum \<Rightarrow> jsnum) option" where
  "conversion variable =
     (if variable = ''temperature'' then Some (\<lambda>k. js_sub k (lit 273.15))
      else if variable = ''precipitation'' \<or> variable = ''windspeed''
              \<or> variable = ''humidity'' \<or> variable = ''dust'' then Some (\<lambda>v. v)
      else None)"

text \<open>The \<^verbatim>\<open>switch (variable)\<close>: the generated value and the advanced counter.\<close>

definition mock_value :: "(nat \<Rightarrow> real) \<Rightarrow> string \<Rightarrow> int \<Rightarrow> nat \<Rightarrow> jsnum \<times> nat" where
  "mock_value rnd variable actualDay i =
     (if variable = ''temperature'' then
        (let seasonalTemp =
               js_add (Fin 15)
                 (js_mul (Fin 15)
                    (js_sin (js_div (js_mul (js_mul (js_sub (Fin (of_int actualDay)) (Fin 80))
                                                    (Fin 2))
                                            (lit pi))
                                    (Fin 365))))
         in (js_add seasonalTemp (js_mul (js_sub (Fin (rnd i)) (lit 0.5)) (Fin 10)), i + 1))
      else if variable = ''precipitation'' then
        (if js_lt (Fin (rnd i)) (lit 0.7) then (Fin 0, i + 1)
         else (js_mul (Fin (rnd (i + 1))) (Fin 50), i + 2))
      else if variable = ''windspeed'' then
        (js_abs (js_add (Fin 5) (js_mul (js_sub (Fin (rnd i)) (lit 0.5)) (Fin 10))), i + 1)
      else if variable = ''humidity'' then (js_add (Fin 40) (js_mul (Fin (rnd i)) (Fin 50)), i + 1)
      else if variable = ''dust'' then (js_mul (Fin (rnd i)) (lit 0.5), i + 1)
      else (js_mul (Fin (rnd i)) (Fin 100), i + 1))"

text \<open>The body of the inner loop: the sample for one \<open>day\<close> offset of one \<open>year\<close>.\<close>

definition mock_sample ::
  "(nat \<Rightarrow> real) \<Rightarrow> (int \<Rightarrow> int \<Rightarrow> jsstring) \<Rightarrow> string \<Rightarrow> int \<Rightarrow> int \<Rightarrow> nat
     \<Rightarrow> sample \<times> nat" where
  "mock_sample rnd dateOf variable year day i =
     (let (actualDay, actualYear) =
            (if day < 1 then (365 + day, year - 1)
             else if 365 < day then (day - 365, year + 1)
             else (day, year));
          (v, i') = mock_value rnd variable actualDay i;
          v = (case conversion variable of Some f \<Rightarrow> f v | None \<Rightarrow> v)
      in (\<lparr> s_date = dateOf actualYear actualDay,
            s_value = Number (round2 v),
            s_year = Some actualYear,
            s_dayOfYear = actualDay \<rparr>, i'))"

function day_loop ::
  "(nat \<Rightarrow> real) \<Rightarrow> (int \<Rightarrow> int \<Rightarrow> jsstring) \<Rightarrow> string \<Rightarrow> int \<Rightarrow> int \<Rightarrow> int
     \<Rightarrow> sample list \<times> nat \<Rightarrow> sample list \<times> nat" where
  "day_loop rnd dateOf variable year day hi (data, i) =
     (if day \<le> hi
      then (let (smp, i') = mock_sample rnd dateOf variable year day i
            in day_loop rnd dateOf variable year (day + 1) hi (data @ [smp], i'))
      else (data, i))"
  by pat_completeness auto
termination
  by (relation "measure (\<lambda>(rnd, dateOf, variable, year, day, hi, st). nat (hi + 1 - day))") auto

declare day_loop.simps [simp del]

function year_loop ::
  "(nat \<Rightarrow> real) \<Rightarrow> (int \<Rightarrow> int \<Rightarrow> jsstring) \<Rightarrow> string \<Rightarrow> int \<Rightarrow> int \<Rightarrow> int \<Rightarrow> int
     \<Rightarrow> sample list \<times> nat \<Rightarrow> sample list \<times> nat" where
  "year_loop rnd dateOf variable dayOfYear window year yend st =
     (if year \<le> yend
      then year_loop rnd dateOf variable dayOfYear window (year + 1) yend
             (day_loop rnd dateOf variable year (dayOfYear - window) (dayOfYear + window) st)
      else st)"
  by pat_completeness auto
termination
  by (relation "measure (\<lambda>(rnd, dateOf, variable, dayOfYear, window, year, yend, st).
                           nat (yend + 1 - year))") auto

declare year_loop.simps [simp del]

definition generateMockData ::
  "(nat \<Rightarrow> real) \<Rightarrow> (int \<Rightarrow> int \<Rightarrow> jsstring) \<Rightarrow> real \<Rightarrow> real \<Rightarrow> string \<Rightarrow> int \<Rightarrow> int \<Rightarrow> yearRange
     \<Rightarrow> sample list" where
  "generateMockData rnd dateOf lat lon variable dayOfYear window yearRange =
     fst (year_loop rnd dateOf variable dayOfYear window
            (yr_start yearRange) (yr_end yearRange) ([], 0))"

section \<open>Readings of the specification\<close>

text \<open>
  "Valid", as the specification of the quality assessor reads it: a present, finite
  numeric value.
\<close>

fun is_finite_number :: "jsval \<Rightarrow> bool" where
  "is_finite_number (Number (Fin r)) = True"
| "is_finite_number v = False"

fun spec_valid_count :: "sample list \<Rightarrow> nat" where
  "spec_valid_count [] = 0"
| "spec_valid_count (d # ds) =
     (if is_finite_number (s_value d) then 1 else 0) + spec_valid_count ds"

text \<open>
  "A valid value strictly greater than the threshold \<open>t\<close>", for a finite \<open>t\<close>: a finite
  number above \<open>t\<close>, or positive infinity.
\<close>

fun exceeds :: "real \<Rightarrow> jsval \<Rightarrow> bool" where
  "exceeds t (Number (Fin a)) = (t < a)"
| "exceeds t (Number PInf) = True"
| "exceeds t v = False"

text \<open>
  "The number of valid values strictly greater than \<open>t\<close>", with "valid" read as present
  and finite.
\<close>

fun finite_above :: "real \<Rightarrow> jsval \<Rightarrow> bool" where
  "finite_above t (Number (Fin a)) = (t < a)"
| "finite_above t v = False"

fun spec_exceed_count :: "real \<Rightarrow> sample list \<Rightarrow> nat" where
  "spec_exceed_count t [] = 0"
| "spec_exceed_count t (d # ds) =
     (if finite_above t (s_value d) then 1 else 0) + spec_exceed_count t ds"

section \<open>Ranges without overflow and underflow\<close>



section \<open>Concrete inputs\<close>

definition fives :: "jsval list" where
  "fives = [Number (Fin 5), Number (Fin 5), Number (Fin 5), Number (Fin 5)]"

definition point :: "int \<Rightarrow> jsval \<Rightarrow> sample" where
  "point y v =
     \<lparr> s_date = units ''2000-07-01'', s_value = v, s_year = Some y, s_dayOfYear = 183 \<rparr>"

definition missing_23_of_80 :: "sample list" where
  "missing_23_of_80 =
     replicate 57 (point 2000 (Number (Fin 1))) @ replicate 23 (point 2000 Null)"

definition above_23_of_80 :: "sample list" where
  "above_23_of_80 =
     replicate 57 (point 2000 (Number (Fin 1))) @ replicate 23 (point 2000 (Number (Fin 9)))"

definition neg_inf_57_of_80 :: "sample list" where
  "neg_inf_57_of_80 =
     replicate 23 (point 2000 (Number (Fin 1))) @ replicate 57 (point 2000 (Number NInf))"

definition inf_pair :: "sample list" where
  "inf_pair = [point 2000 (Number (Fin 5)), point 2000 (Number PInf)]"



section \<open>Properties of double rounding\<close>

text \<open>
  The exponent found by bisection is the binary exponent of the magnitude, rounding is
  monotone and exact on the multiples of the unit in the last place, and it commutes with
  halving away from the subnormal range. The lemmas \<open>round_double_eval\<close>, \<open>fl_numeral\<close>
  and \<open>fl_dyadic\<close> evaluate a rounding at a given number.
\<close>

lemma bisect_lower:
  "2 powi lo \<le> a \<or> lo = L \<Longrightarrow>
   2 powi (bisect n lo hi a) \<le> a \<or> bisect n lo hi a = L"
  by (induction n arbitrary: lo hi) (auto simp: Let_def)

lemma bisect_range:
  "lo \<le> hi \<Longrightarrow> lo \<le> bisect n lo hi a \<and> bisect n lo hi a \<le> hi"
proof (induction n arbitrary: lo hi)
  case 0
  then show ?case by simp
next
  case (Suc n)
  show ?case
  proof (cases "hi \<le> lo")
    case True
    with Suc.prems show ?thesis by simp
  next
    case False
    define mid where "mid = (lo + hi + 1) div 2"
    have m: "lo < mid" "mid \<le> hi" using False by (auto simp: mid_def)
    from Suc.IH [of mid hi] Suc.IH [of lo "mid - 1"] m False
    show ?thesis by (auto simp: Let_def mid_def [symmetric])
  qed
qed

lemma bisect_upper:
  "lo \<le> hi \<Longrightarrow> a < 2 powi (hi + 1) \<Longrightarrow> hi - lo < 2 ^ n \<Longrightarrow>
   a < 2 powi (bisect n lo hi a + 1)"
proof (induction n arbitrary: lo hi)
  case 0
  then have "hi = lo" by simp
  with 0 show ?case by simp
next
  case (Suc n)
  show ?case
  proof (cases "hi \<le> lo")
    case True
    with Suc.prems have "hi = lo" by simp
    with Suc.prems show ?thesis by simp
  next
    case False
    define mid where "mid = (lo + hi + 1) div 2"
    have m: "lo < mid" "mid \<le> hi" using False by (auto simp: mid_def)
    have w: "hi - lo < 2 * 2 ^ n" using Suc.prems(3) by simp
    have r1: "hi - mid < 2 ^ n" using w False unfolding mid_def by linarith
    have r2: "mid - 1 - lo < 2 ^ n" using w False unfolding mid_def by linarith
    show ?thesis
    proof (cases "2 powi mid \<le> a")
      case True
      with Suc.IH [OF m(2) Suc.prems(2) r1] False show ?thesis
        by (simp add: Let_def mid_def [symmetric])
    next
      case nle: False
      then have "a < 2 powi (mid - 1 + 1)" by simp
      from Suc.IH [OF _ this r2] m nle False show ?thesis
        by (simp add: Let_def mid_def [symmetric])
    qed
  qed
qed

lemma binade_range: "- 1022 \<le> binade a" "binade a \<le> 1023"
  using bisect_range [of "- 1022" 1023 11 a] by (simp_all add: binade_def)

lemma binade_lower: "2 powi binade a \<le> a \<or> binade a = - 1022"
  using bisect_lower [of "- 1022" a "- 1022" 11 1023] by (simp add: binade_def)

lemma binade_upper: "a < 2 ^ 1024 \<Longrightarrow> a < 2 powi (binade a + 1)"
  using bisect_upper [of "- 1022" 1023 a 11] by (simp add: binade_def)

lemma rne_of_int: "rne (of_int k) = k"
  by (simp add: rne_def)

lemma rne_ge: "of_int i \<le> y \<Longrightarrow> i \<le> rne y"
proof -
  assume "of_int i \<le> y"
  then have "i \<le> \<lfloor>y\<rfloor>" by (simp add: le_floor_iff)
  then show ?thesis by (auto simp: rne_def Let_def)
qed

lemma rne_le: "y \<le> of_int j \<Longrightarrow> rne y \<le> j"
proof -
  assume a: "y \<le> of_int j"
  show ?thesis
  proof (cases "y = of_int \<lfloor>y\<rfloor>")
    case True
    then have "rne y = \<lfloor>y\<rfloor>" by (simp add: rne_def Let_def)
    moreover have "\<lfloor>y\<rfloor> \<le> j" using a by (simp add: floor_le_iff)
    ultimately show ?thesis by simp
  next
    case False
    from False [symmetric] of_int_floor_le have "of_int \<lfloor>y\<rfloor> < y"
      by (rule order.not_eq_order_implies_strict)
    with a have "of_int \<lfloor>y\<rfloor> < (of_int j :: real)" by linarith
    then have "\<lfloor>y\<rfloor> + 1 \<le> j" by simp
    moreover have "rne y \<le> \<lfloor>y\<rfloor> + 1" by (auto simp: rne_def Let_def)
    ultimately show ?thesis by linarith
  qed
qed

lemma rne_error: "\<bar>of_int (rne y) - y\<bar> \<le> 1 / 2"
  unfolding rne_def Let_def by (auto simp: abs_le_iff)

lemma round_double_exponent:
  assumes "\<bar>x\<bar> < 2 powi (k + 53)" and "- 1074 \<le> k"
  shows "binade \<bar>x\<bar> - 52 \<le> k"
proof (rule ccontr)
  assume "\<not> binade \<bar>x\<bar> - 52 \<le> k"
  then have big: "k + 53 \<le> binade \<bar>x\<bar>" by simp
  with assms(2) have "binade \<bar>x\<bar> \<noteq> - 1022" by simp
  with binade_lower [of "\<bar>x\<bar>"] have "2 powi binade \<bar>x\<bar> \<le> \<bar>x\<bar>" by simp
  moreover have "(2::real) powi (k + 53) \<le> 2 powi binade \<bar>x\<bar>"
    using big by (intro power_int_increasing) simp_all
  ultimately show False using assms(1) by linarith
qed

lemma multiple_rescale:
  assumes "e \<le> k"
  shows "of_int i * 2 powi k = of_int (i * 2 ^ nat (k - e)) * (2::real) powi e"
proof -
  have "(2::real) powi k = 2 powi (k - e) * 2 powi e"
    by (simp flip: power_int_add)
  also have "(2::real) powi (k - e) = 2 ^ nat (k - e)"
    using assms by (simp add: power_int_def)
  finally show ?thesis by simp
qed

lemma round_double_ge:
  assumes "of_int i * 2 powi k \<le> x" and "binade \<bar>x\<bar> - 52 \<le> k"
  shows "of_int i * 2 powi k \<le> round_double x"
proof -
  define e where "e = binade \<bar>x\<bar> - 52"
  have e: "e \<le> k" unfolding e_def using assms(2) .
  have pos: "0 < (2::real) powi e" by simp
  have rd: "round_double x = of_int (rne (x / 2 powi e)) * 2 powi e"
    by (simp add: round_double_def e_def Let_def)
  have mi: "of_int i * 2 powi k = of_int (i * 2 ^ nat (k - e)) * (2::real) powi e"
    by (rule multiple_rescale [OF e])
  have "of_int (i * 2 ^ nat (k - e)) * 2 powi e \<le> x"
    using assms(1) unfolding mi .
  then have "of_int (i * 2 ^ nat (k - e)) \<le> x / 2 powi e"
    using pos by (simp only: pos_le_divide_eq)
  then have "i * 2 ^ nat (k - e) \<le> rne (x / 2 powi e)" by (rule rne_ge)
  then have "(of_int (i * 2 ^ nat (k - e)) :: real) \<le> of_int (rne (x / 2 powi e))"
    by (simp only: of_int_le_iff)
  then show ?thesis
    unfolding rd mi using pos by (simp only: mult_le_cancel_right_pos)
qed

lemma round_double_le:
  assumes "x \<le> of_int j * 2 powi k" and "binade \<bar>x\<bar> - 52 \<le> k"
  shows "round_double x \<le> of_int j * 2 powi k"
proof -
  define e where "e = binade \<bar>x\<bar> - 52"
  have e: "e \<le> k" unfolding e_def using assms(2) .
  have pos: "0 < (2::real) powi e" by simp
  have rd: "round_double x = of_int (rne (x / 2 powi e)) * 2 powi e"
    by (simp add: round_double_def e_def Let_def)
  have mj: "of_int j * 2 powi k = of_int (j * 2 ^ nat (k - e)) * (2::real) powi e"
    by (rule multiple_rescale [OF e])
  have "x \<le> of_int (j * 2 ^ nat (k - e)) * 2 powi e"
    using assms(1) unfolding mj .
  then have "x / 2 powi e \<le> of_int (j * 2 ^ nat (k - e))"
    using pos by (simp only: pos_divide_le_eq)
  then have "rne (x / 2 powi e) \<le> j * 2 ^ nat (k - e)" by (rule rne_le)
  then have "(of_int (rne (x / 2 powi e)) :: real) \<le> of_int (j * 2 ^ nat (k - e))"
    by (simp only: of_int_le_iff)
  then show ?thesis
    unfolding rd mj using pos by (simp only: mult_le_cancel_right_pos)
qed

lemma round_double_sandwich:
  assumes "of_int i * 2 powi k \<le> x" and "x \<le> of_int j * 2 powi k"
    and "\<bar>x\<bar> < 2 powi (k + 53)" and "- 1074 \<le> k"
  shows "of_int i * 2 powi k \<le> round_double x" and "round_double x \<le> of_int j * 2 powi k"
  using round_double_ge [OF assms(1) round_double_exponent [OF assms(3,4)]]
    round_double_le [OF assms(2) round_double_exponent [OF assms(3,4)]] .


lemma round_double_underflow:
  assumes "x \<le> - (2 ^ 1024)"
  shows "round_double x \<le> - (2 ^ 1024)"
proof -
  have p: "- ((2::real) ^ 1024) = of_int (- (2 ^ 53)) * 2 powi 971" by simp
  have e: "binade \<bar>x\<bar> - 52 \<le> 971" using binade_range(2) [of "\<bar>x\<bar>"] by simp
  from assms have "x \<le> of_int (- (2 ^ 53)) * 2 powi 971" unfolding p .
  from round_double_le [OF this e] show ?thesis unfolding p .
qed

lemma round_double_exact:
  assumes "\<bar>m\<bar> < 2 ^ 53" and "- 1074 \<le> k"
  shows "round_double (of_int m * 2 powi k) = of_int m * 2 powi k"
proof -
  have "\<bar>of_int m * (2::real) powi k\<bar> = of_int \<bar>m\<bar> * 2 powi k"
    by (simp add: abs_mult)
  also have "\<dots> < 2 ^ 53 * 2 powi k"
  proof -
    have "(of_int \<bar>m\<bar> :: real) < of_int (2 ^ 53)" using assms(1) by (simp only: of_int_less_iff)
    then show ?thesis by simp
  qed
  also have "\<dots> = 2 powi (k + 53)"
    by (simp add: power_int_add)
  finally have b: "\<bar>of_int m * (2::real) powi k\<bar> < 2 powi (k + 53)" .
  from round_double_sandwich [OF order_refl order_refl b assms(2)]
  show ?thesis by linarith
qed

lemma round_double_error:
  assumes "\<bar>x\<bar> < 2 powi (k + 53)" and "- 1074 \<le> k"
  shows "\<bar>round_double x - x\<bar> \<le> 2 powi (k - 1)"
proof -
  define e where "e = binade \<bar>x\<bar> - 52"
  have e: "e \<le> k" unfolding e_def using assms by (rule round_double_exponent)
  have pos: "0 < (2::real) powi e" by simp
  have "round_double x - x = (of_int (rne (x / 2 powi e)) - x / 2 powi e) * 2 powi e"
    by (simp add: round_double_def e_def Let_def algebra_simps)
  then have "\<bar>round_double x - x\<bar> = \<bar>of_int (rne (x / 2 powi e)) - x / 2 powi e\<bar> * 2 powi e"
    by (simp add: abs_mult)
  also have "\<dots> \<le> 1 / 2 * 2 powi e"
    using rne_error [of "x / 2 powi e"] pos by (simp only: mult_le_cancel_right_pos)
  also have "\<dots> \<le> 1 / 2 * 2 powi k"
    using e by (simp add: power_int_increasing)
  also have "\<dots> = 2 powi (k - 1)"
    by (simp add: power_int_diff)
  finally show ?thesis .
qed

lemma pow2_less_imp: "(2::real) powi m < 2 powi n \<Longrightarrow> m < n"
proof (rule ccontr)
  assume a: "(2::real) powi m < 2 powi n" and "\<not> m < n"
  then have "n \<le> m" by simp
  then have "(2::real) powi n \<le> 2 powi m" by (intro power_int_increasing) simp_all
  with a show False by linarith
qed

lemma binade_eq:
  assumes "2 powi E \<le> a" and "a < 2 powi (E + 1)" and "- 1022 \<le> E" and "E \<le> 1023"
  shows "binade a = E"
proof -
  have "(2::real) powi (E + 1) \<le> 2 powi 1024"
    using assms(4) by (intro power_int_increasing) simp_all
  with assms(2) have "a < 2 ^ 1024" by simp
  then have up: "a < 2 powi (binade a + 1)" by (rule binade_upper)
  have low: "2 powi binade a \<le> a"
  proof (cases "binade a = - 1022")
    case True
    have "(2::real) powi (- 1022) \<le> 2 powi E"
      using assms(3) by (intro power_int_increasing) simp_all
    with assms(1) True show ?thesis by simp
  next
    case False
    with binade_lower [of a] show ?thesis by simp
  qed
  from low assms(2) have "(2::real) powi binade a < 2 powi (E + 1)" by linarith
  then have "binade a < E + 1" by (rule pow2_less_imp)
  moreover from assms(1) up have "(2::real) powi E < 2 powi (binade a + 1)" by linarith
  then have "E < binade a + 1" by (rule pow2_less_imp)
  ultimately show ?thesis by simp
qed

lemma round_double_eval:
  assumes "2 powi E \<le> \<bar>x\<bar>" and "\<bar>x\<bar> < 2 powi (E + 1)" and "- 1022 \<le> E" and "E \<le> 1023"
  shows "round_double x = of_int (rne (x / 2 powi (E - 52))) * 2 powi (E - 52)"
  by (simp add: round_double_def Let_def binade_eq [OF assms])



lemma fl_finite: "\<bar>round_double x\<bar> < 2 ^ 1024 \<Longrightarrow> fl x = Fin (round_double x)"
  by (auto simp: fl_def Let_def)

lemma round_double_of_int: "\<bar>m\<bar> < 2 ^ 53 \<Longrightarrow> round_double (of_int m) = of_int m"
  using round_double_exact [of m 0] by simp

lemma fl_of_int: "\<bar>m\<bar> < 2 ^ 53 \<Longrightarrow> fl (of_int m) = Fin (of_int m)"
proof -
  assume a: "\<bar>m\<bar> < 2 ^ 53"
  then have r: "round_double (of_int m) = of_int m" by (rule round_double_of_int)
  have "\<bar>real_of_int m\<bar> = of_int \<bar>m\<bar>" by simp
  also have "\<dots> < of_int (2 ^ 53)" using a by (simp only: of_int_less_iff)
  also have "\<dots> < 2 ^ 1024" by simp
  finally show ?thesis by (simp add: fl_finite r)
qed

lemma fl_numeral: "(numeral n :: int) < 2 ^ 53 \<Longrightarrow> fl (numeral n) = Fin (numeral n)"
  using fl_of_int [of "numeral n"] by simp

lemma fl_neg_numeral: "(numeral n :: int) < 2 ^ 53 \<Longrightarrow> fl (- numeral n) = Fin (- numeral n)"
  using fl_of_int [of "- numeral n"] by simp

lemma fl_0: "fl 0 = Fin 0"
  using fl_of_int [of 0] by simp

lemma fl_1: "fl 1 = Fin 1"
  using fl_of_int [of 1] by simp





section \<open>Properties of the quality assessor\<close>

lemma is_valid_iff: "is_valid v \<longleftrightarrow> v \<notin> {Null, Undefined, Number NaN}"
  by (cases v) (auto simp: is_valid_def js_isNaN_def)

lemma ratio_bounds:
  assumes "0 < (t::nat)" and "(m::nat) \<le> t"
  shows "0 \<le> real m / real t" and "real m / real t \<le> 1"
  using assms by (auto simp: divide_le_eq)

text \<open>
  The percentage of a part \<open>m\<close> of a total \<open>t\<close>, as the code computes it: the quotient
  rounds to a double between 0 and 1, its product with 100 rounds to a double \<open>x\<close>
  between 0 and 100 that is within \<open>2 ^ - 45\<close> of the exact percentage, and \<open>x\<close> is
  rendered with one fraction digit.
\<close>

lemma percent_double:
  assumes "0 < (t::nat)" and "(m::nat) \<le> t"
  defines "p \<equiv> round_double (real m / real t)"
  defines "x \<equiv> round_double (p * 100)"
  shows "js_div (js_nat m) (js_nat t) = Fin p"
    and "js_mul (js_div (js_nat m) (js_nat t)) (Fin 100) = Fin x"
    and "0 \<le> x" and "x \<le> 100"
    and "\<bar>x - real m / real t * 100\<bar> \<le> 1 / 2 ^ 45"
    and "toFixed 1 (Fin x) = SDigits False (nat \<lfloor>x * 10 + 1 / 2\<rfloor>) 1"
    and "nat \<lfloor>x * 10 + 1 / 2\<rfloor> \<le> 1000"
    and "\<bar>p - real m / real t\<bar> \<le> 1 / 2 ^ 53"
proof -
  define q where "q = real m / real t"
  have q: "0 \<le> q" "q \<le> 1" unfolding q_def using assms(1,2) by (rule ratio_bounds)+
  have qa: "\<bar>q\<bar> < 2 powi (- 52 + 53)" using q by simp
  have "of_int 0 * 2 powi (- 52) \<le> q" "q \<le> of_int (2 ^ 52) * 2 powi (- 52)"
    using q by (simp_all add: power_int_minus)
  from round_double_sandwich [OF this qa]
  have p: "0 \<le> p" "p \<le> 1" unfolding p_def q_def by (simp_all add: power_int_minus)
  have pe: "\<bar>p - q\<bar> \<le> 2 powi (- 53)"
    using round_double_error [OF qa] unfolding p_def q_def by simp
  have "\<bar>round_double q\<bar> < 2 ^ 1024"
    using p unfolding p_def q_def by (simp add: abs_if)
  then have flq: "fl q = Fin p" unfolding p_def q_def by (rule fl_finite)
  show d: "js_div (js_nat m) (js_nat t) = Fin p"
    using assms(1) flq by (simp add: js_nat_def q_def)
  have ya: "\<bar>p * 100\<bar> < 2 powi (- 46 + 53)" using p by (simp add: abs_if)
  have "of_int 0 * 2 powi (- 46) \<le> p * 100"
    "p * 100 \<le> of_int (100 * 2 ^ 46) * 2 powi (- 46)"
    using p by (simp_all add: power_int_minus)
  from round_double_sandwich [OF this ya]
  show x: "0 \<le> x" "x \<le> 100" unfolding x_def by (simp_all add: power_int_minus)
  have xe: "\<bar>x - p * 100\<bar> \<le> 2 powi (- 47)"
    using round_double_error [OF ya] unfolding x_def by simp
  have "\<bar>round_double (p * 100)\<bar> < 2 ^ 1024"
  proof -
    have "\<bar>x\<bar> \<le> 100" using x by simp
    also have "(100::real) < 2 ^ 1024" by simp
    finally show ?thesis unfolding x_def .
  qed
  then have "fl (p * 100) = Fin x" unfolding x_def by (rule fl_finite)
  then show "js_mul (js_div (js_nat m) (js_nat t)) (Fin 100) = Fin x"
    unfolding d by simp
  have "\<bar>x - q * 100\<bar> \<le> \<bar>x - p * 100\<bar> + \<bar>p - q\<bar> * 100" by (simp add: abs_if)
  also have "\<dots> \<le> 2 powi (- 47) + 2 powi (- 53) * 100"
    using xe pe by (intro add_mono mult_right_mono) simp_all
  also have "\<dots> \<le> 1 / 2 ^ 45" by (simp add: power_int_minus field_simps)
  finally show "\<bar>x - real m / real t * 100\<bar> \<le> 1 / 2 ^ 45" unfolding q_def .
  have "\<bar>x\<bar> \<le> 100" using x by simp
  also have "(100::real) < 10 ^ 21" by simp
  finally have small: "\<not> (10 ^ 21 \<le> \<bar>x\<bar>)" by simp
  have nonneg: "\<not> (x < 0)" using x by simp
  show "toFixed 1 (Fin x) = SDigits False (nat \<lfloor>x * 10 + 1 / 2\<rfloor>) 1"
    using small nonneg by simp
  have "x * 10 + 1 / 2 \<le> 1000 + 1 / 2" using x by simp
  then have "\<lfloor>x * 10 + 1 / 2\<rfloor> \<le> 1000" by linarith
  then show "nat \<lfloor>x * 10 + 1 / 2\<rfloor> \<le> 1000" by linarith
  show "\<bar>p - real m / real t\<bar> \<le> 1 / 2 ^ 53"
    using pe unfolding q_def by (simp add: power_int_minus)
qed

text \<open>
  A percentage rendered with one fraction digit, \<open>n\<close> tenths, read back as a number and
  compared with a whole number \<open>c\<close>: the comparison is that of \<open>n\<close> with \<open>10 * c\<close>.
\<close>

lemma rendered_compare:
  assumes "n \<le> 1000" and "0 < c" and "c \<le> 100"
  shows "js_lt (str_toNumber (SDigits False n 1)) (Fin (real c)) \<longleftrightarrow> n < 10 * c"
    and "js_gt (str_toNumber (SDigits False n 1)) (Fin (real c)) \<longleftrightarrow> 10 * c < n"
proof -
  define y where "y = real n / 10"
  define r where "r = round_double y"
  have y: "0 \<le> y" "y \<le> 100" using assms(1) by (simp_all add: y_def)
  have y4: "\<bar>y\<bar> < 2 powi (- 4 + 53)" using y by simp
  have y0: "\<bar>y\<bar> < 2 powi (0 + 53)" using y by simp
  have "of_int 0 * 2 powi 0 \<le> y" "y \<le> of_int 100 * 2 powi 0" using y by simp_all
  from round_double_sandwich [OF this y0] have r: "0 \<le> r" "r \<le> 100"
    unfolding r_def by simp_all
  have "\<bar>r\<bar> \<le> 100" using r by simp
  also have "(100::real) < 2 ^ 1024" by simp
  finally have "fl y = Fin r" unfolding r_def by (rule fl_finite)
  then have s: "str_toNumber (SDigits False n 1) = Fin r" by (simp add: y_def)
  have lt: "r < real c \<longleftrightarrow> n < 10 * c"
  proof (cases "n < 10 * c")
    case True
    then have "real n \<le> 10 * real c - 1"
      by (metis (no_types, opaque_lifting) Suc_leI of_nat_Suc of_nat_le_iff of_nat_mult
          of_nat_numeral add.commute le_diff_eq)
    then have hi: "y \<le> of_int (16 * int c - 1) * 2 powi (- 4)"
      by (simp add: y_def power_int_minus field_simps)
    have lo: "of_int 0 * 2 powi (- 4) \<le> y" using y by simp
    from round_double_sandwich(2) [OF lo hi y4]
    have "r \<le> of_int (16 * int c - 1) * 2 powi (- 4)"
      unfolding r_def by simp
    then have "r < real c" by (simp add: power_int_minus field_simps)
    with True show ?thesis by simp
  next
    case False
    then have "real (10 * c) \<le> real n" by (simp only: of_nat_le_iff not_less)
    then have lo: "of_int (int c) * 2 powi 0 \<le> y" by (simp add: y_def)
    have hi: "y \<le> of_int 100 * 2 powi 0" using y by simp
    from round_double_sandwich(1) [OF lo hi y0]
    have "of_int (int c) * 2 powi 0 \<le> r"
      unfolding r_def by simp
    then have "\<not> r < real c" by simp
    with False show ?thesis by simp
  qed
  have gt: "real c < r \<longleftrightarrow> 10 * c < n"
  proof (cases "10 * c < n")
    case True
    then have "10 * real c + 1 \<le> real n"
      by (metis (no_types, opaque_lifting) Suc_leI of_nat_Suc of_nat_le_iff of_nat_mult
          of_nat_numeral add.commute)
    then have lo: "of_int (16 * int c + 1) * 2 powi (- 4) \<le> y"
      by (simp add: y_def power_int_minus field_simps)
    have hi: "y \<le> of_int (100 * 16) * 2 powi (- 4)"
      using y by (simp add: power_int_minus)
    from round_double_sandwich(1) [OF lo hi y4]
    have "of_int (16 * int c + 1) * 2 powi (- 4) \<le> r"
      unfolding r_def by simp
    then have "real c < r" by (simp add: power_int_minus field_simps)
    with True show ?thesis by simp
  next
    case False
    then have "real n \<le> real (10 * c)" by (simp only: of_nat_le_iff not_less)
    then have hi: "y \<le> of_int (int c) * 2 powi 0" by (simp add: y_def)
    have lo: "of_int 0 * 2 powi 0 \<le> y" using y by simp
    from round_double_sandwich(2) [OF lo hi y0]
    have "r \<le> of_int (int c) * 2 powi 0"
      unfolding r_def by simp
    then have "\<not> real c < r" by simp
    with False show ?thesis by simp
  qed
  show "js_lt (str_toNumber (SDigits False n 1)) (Fin (real c)) \<longleftrightarrow> n < 10 * c"
    unfolding s using lt by simp
  show "js_gt (str_toNumber (SDigits False n 1)) (Fin (real c)) \<longleftrightarrow> 10 * c < n"
    unfolding s using gt by (simp add: js_gt_def)
qed

lemma percent_23_of_80:
  "round_double (round_double (23 / 80) * 100) = 8092405580431359 / 281474976710656"
proof -
  have a: "round_double (23 / 80) = 2589569785738035 / 9007199254740992"
    by (subst round_double_eval [of "- 2"]) (simp_all add: rne_def Let_def power_int_minus)
  have b: "round_double (2589569785738035 / 9007199254740992 * 100)
             = 8092405580431359 / 281474976710656"
    by (subst round_double_eval [of 4]) (simp_all add: rne_def Let_def power_int_minus)
  show ?thesis unfolding a b ..
qed

text \<open>
  C10. For the empty sample sequence \<^verbatim>\<open>assessDataQuality\<close> returns total, valid and
  missing all 0, no warning, and the tier \<^verbatim>\<open>'poor'\<close>: the percentage \<open>0 / 0\<close> is \<open>NaN\<close>,
  rendered as the string \<^verbatim>\<open>"NaN"\<close>, and fails both tier tests and the warning test.
\<close>

theorem assessDataQuality_empty:
  "assessDataQuality [] =
     \<lparr> q_total = 0, q_valid = 0, q_missing = 0, q_missingPercent = SNaN,
       q_quality = ''poor'', q_warning = None \<rparr>"
  by (simp add: assessDataQuality_def js_nat_def js_gt_def)

text \<open>
  C9, as the claim states it, reads "valid" as a present, finite numeric value. The
  filter of the code is \<^verbatim>\<open>!isNaN\<close>, which an infinite value passes: for the single
  sample with value \<^verbatim>\<open>Infinity\<close> the code reports no missing sample, while the count by
  the claim's reading is one.
\<close>

theorem assessDataQuality_infinite_counterexample:
  "q_missing (assessDataQuality [point 2000 (Number PInf)])
     \<noteq> length [point 2000 (Number PInf)] - spec_valid_count [point 2000 (Number PInf)]"
  by (simp add: assessDataQuality_def point_def is_valid_def js_isNaN_def Let_def)

text \<open>
  C9, amended. For every non-empty sample sequence, with "valid" meaning a value that
  is not \<^verbatim>\<open>null\<close>, not \<^verbatim>\<open>undefined\<close> and not \<open>NaN\<close>: missing is total minus valid; the
  missing percentage is computed in double arithmetic, the quotient \<open>missing / total\<close>
  rounded to a double and its product with 100 rounded again to a double \<open>x\<close>, which is
  within \<open>2 ^ - 45\<close> of the exact percentage, and is rendered to one decimal place as \<open>n\<close>
  tenths; the tier is \<^verbatim>\<open>'good'\<close> when the rendered percentage is below 10, \<^verbatim>\<open>'fair'\<close>
  when it is below 30, \<^verbatim>\<open>'poor'\<close> otherwise; and the warning is set exactly when the
  rendered percentage is above 30. With 23 of 80 samples missing the double \<open>x\<close> is just
  below 28.75 and the rendered percentage is 28.7.
\<close>

theorem assessDataQuality_nonempty:
  "dataPoints \<noteq> [] \<Longrightarrow>
   (let r = assessDataQuality dataPoints;
        t = length dataPoints;
        v = length (filter (\<lambda>d. s_value d \<notin> {Null, Undefined, Number NaN}) dataPoints);
        m = t - v;
        x = round_double (round_double (real m / real t) * 100);
        n = nat \<lfloor>x * 10 + 1 / 2\<rfloor>
    in q_total r = t \<and> q_valid r = v \<and> q_missing r = m
       \<and> \<bar>x - real m / real t * 100\<bar> \<le> 1 / 2 ^ 45
       \<and> q_missingPercent r = SDigits False n 1
       \<and> q_quality r = (if n < 100 then ''good'' else if n < 300 then ''fair'' else ''poor'')
       \<and> q_warning r =
           (if 300 < n then Some ''High percentage of missing data may affect reliability''
            else None))"
proof -
  assume ne: "dataPoints \<noteq> []"
  define t where "t = length dataPoints"
  define v where
    "v = length (filter (\<lambda>d. s_value d \<notin> {Null, Undefined, Number NaN}) dataPoints)"
  define m where "m = t - v"
  define x where "x = round_double (round_double (real m / real t) * 100)"
  define n where "n = nat \<lfloor>x * 10 + 1 / 2\<rfloor>"
  define r where "r = assessDataQuality dataPoints"
  have tpos: "0 < t" using ne by (simp add: t_def)
  have mt: "m \<le> t" by (simp add: m_def)
  note pd = percent_double [OF tpos mt, folded x_def, folded n_def]
  have q: "js_mul (js_div (js_nat m) (js_nat t)) (Fin 100) = Fin x" by (rule pd(2))
  have fx: "toFixed 1 (Fin x) = SDigits False n 1" by (rule pd(6))
  have n: "n \<le> 1000" by (rule pd(7))
  have c10: "js_lt (str_toNumber (SDigits False n 1)) (Fin 10) \<longleftrightarrow> n < 100"
    using rendered_compare(1) [OF n, of 10] by simp
  have c30: "js_lt (str_toNumber (SDigits False n 1)) (Fin 30) \<longleftrightarrow> n < 300"
    using rendered_compare(1) [OF n, of 30] by simp
  have g30: "js_gt (str_toNumber (SDigits False n 1)) (Fin 30) \<longleftrightarrow> 300 < n"
    using rendered_compare(2) [OF n, of 30] by simp
  have v': "length (filter (\<lambda>d. is_valid (s_value d)) dataPoints) = v"
    by (simp add: v_def is_valid_iff)
  have r1: "q_total r = t" "q_valid r = v" "q_missing r = m"
    by (simp_all add: r_def assessDataQuality_def Let_def v' t_def [symmetric] m_def)
  have r2: "q_missingPercent r = SDigits False n 1"
    unfolding r_def assessDataQuality_def Let_def
    by (simp only: qualityResult.simps v' t_def [symmetric] m_def [symmetric] q fx)
  have r3: "q_quality r = (if n < 100 then ''good'' else if n < 300 then ''fair'' else ''poor'')"
    unfolding r_def assessDataQuality_def Let_def
    by (simp only: qualityResult.simps v' t_def [symmetric] m_def [symmetric] q fx c10 c30)
  have r4: "q_warning r =
           (if 300 < n then Some ''High percentage of missing data may affect reliability''
            else None)"
    unfolding r_def assessDataQuality_def Let_def
    by (simp only: qualityResult.simps v' t_def [symmetric] m_def [symmetric] q fx g30)
  have r5: "\<bar>x - real m / real t * 100\<bar> \<le> 1 / 2 ^ 45" by (rule pd(5))
  show ?thesis
    unfolding Let_def t_def [symmetric] v_def [symmetric] m_def [symmetric] x_def [symmetric]
      n_def [symmetric] r_def [symmetric]
    using r1 r2 r3 r4 r5 by (simp only: simp_thms)
qed

theorem assessDataQuality_nonempty_witness:
  "missing_23_of_80 \<noteq> []
   \<and> q_total (assessDataQuality missing_23_of_80) = 80
   \<and> q_valid (assessDataQuality missing_23_of_80) = 57
   \<and> q_missing (assessDataQuality missing_23_of_80) = 23
   \<and> q_missingPercent (assessDataQuality missing_23_of_80) = SDigits False 287 1
   \<and> q_quality (assessDataQuality missing_23_of_80) = ''fair''
   \<and> q_warning (assessDataQuality missing_23_of_80) = None"
proof -
  have ne: "missing_23_of_80 \<noteq> []" by (simp add: missing_23_of_80_def)
  show ?thesis
    using ne assessDataQuality_nonempty [OF ne]
    by (simp add: missing_23_of_80_def point_def Let_def percent_23_of_80)
qed

section \<open>Properties of the histogram builder\<close>

lemma upt_21: "[0..<21] = [0,1,2,3,4,5,6,7,8,9,10,11,12,13,14,15,16,17,18,19,20]"
  by (simp add: upt_rec)

text \<open>
  C1. The claim: when all values are identical the histogram builder does not fault and
  bin 0 holds every value. The code does not fault, but it has no guard for the zero bin
  width: for the values \<open>[5, 5, 5, 5]\<close> each bin index is \<open>0 / 0 = NaN\<close>, which passes both
  clamps unchanged and is no array index, so every one of the 20 counts stays 0.
\<close>

theorem createHistogram_identical_values:
  "createHistogram fives 20 =
     \<lparr> h_bins = replicate 21 (Fin 5),
       h_counts = replicate 20 (Number (Fin 0)),
       h_binWidth = Some (Fin 0) \<rparr>"
  by (simp add: createHistogram_def fives_def math_min_def math_max_def js_sub_def
      js_nat_def count_value_def js_ge_def js_le_def js_eq_def round2_def Let_def upt_21
      numeral_eq_Suc fl_0 fl_1 fl_numeral)

text \<open>
  C2. The claim: the counts of \<^verbatim>\<open>createHistogram(V, 20)\<close> sum to the number of finite
  values of \<open>V\<close>. For \<open>V = [5, 5, 5, 5]\<close> the counts sum to 0 while \<open>V\<close> has four finite
  values.
\<close>

theorem createHistogram_counts_sum_identical:
  "counts_sum (createHistogram fives 20) = Fin 0 \<and> length (filter is_finite_number fives) = 4"
  by (simp add: createHistogram_def fives_def math_min_def math_max_def js_sub_def
      js_nat_def count_value_def js_ge_def js_le_def js_eq_def counts_sum_def Let_def
      numeral_eq_Suc fl_0 fl_1 fl_numeral)

section \<open>Properties of the summarizer\<close>

text \<open>
  C3. The claim: with no valid value \<^verbatim>\<open>computeStats\<close> returns count 0 and no numeric
  field, and \<^verbatim>\<open>generateSummary\<close> on that result returns an "insufficient data" sentence
  without faulting. The first half holds. The second does not: the result has no
  exceedance, so the summarizer formats \<^verbatim>\<open>stats.mean\<close>, which is \<^verbatim>\<open>undefined\<close>, and the
  call of \<^verbatim>\<open>toFixed\<close> raises a \<^verbatim>\<open>TypeError\<close>; shown for the empty sequence and for a
  sequence whose values are all missing.
\<close>

theorem generateSummary_no_data_faults:
  "computeStats [] Null = NoData ''No valid data points'' 0
   \<and> generateSummary (computeStats [] Null) ''temperature'' Null = Inl TypeError
   \<and> computeStats [point 2000 Null, point 2000 Undefined, point 2000 (Number NaN)] Null
       = NoData ''No valid data points'' 0
   \<and> generateSummary
        (computeStats [point 2000 Null, point 2000 Undefined, point 2000 (Number NaN)] Null)
        ''temperature'' Null = Inl TypeError"
  by (simp add: computeStats_def generateSummary_def point_def is_valid_def js_isNaN_def)

text \<open>
  The same holds for every sample sequence without a valid value, whatever the threshold
  and the variable.
\<close>

lemma generateSummary_no_valid_values:
  assumes "filter is_valid (map s_value dataPoints) = []"
  shows "computeStats dataPoints threshold = NoData ''No valid data points'' 0"
    and "generateSummary (computeStats dataPoints threshold) variable threshold' = Inl TypeError"
  using assms by (simp_all add: computeStats_def generateSummary_def Let_def)

section \<open>Properties of the trend analyzer\<close>

lemma show_nat_2000: "show_nat 2000 = [50, 48, 48, 48]"
  by (simp add: show_nat.simps)

lemma parseInt_2000: "parseInt [50, 48, 48, 48] = Fin 2000"
  by (simp add: parseInt_def is_space_def units_def is_digit_in_def digit_val_def
      digits_value_def fl_numeral Let_def)

lemma group_by_year_2000:
  "group_by_year [point 2000 (Number (Fin 10)), point 2000 Null]
     = [([50, 48, 48, 48], [Number (Fin 10), Null])]"
  by (simp add: group_by_year_def year_of_def point_def show_nat_2000)

lemma mean_10_null: "mean [Number (Fin 10), Null] = Fin 5"
  by (simp add: mean_def js_nat_def fl_numeral)

text \<open>
  C4. The claim: each year's mean is taken over that year's present values only, with
  the count of contributing values. The code pushes every value of the year and averages
  them all: for the year 2000 with the values 10 and \<^verbatim>\<open>null\<close> it reports the mean 5 and
  the count 2, where the claim gives the mean 10 and the count 1.
\<close>

theorem analyzeTrend_averages_missing:
  "tr_yearlyMeans (analyzeTrend [point 2000 (Number (Fin 10)), point 2000 Null])
     = [\<lparr> ym_year = Fin 2000, ym_mean = Fin 5, ym_count = 2 \<rparr>]"
  unfolding analyzeTrend_def group_by_year_2000 Let_def
  by (simp add: sort_keys_def parseInt_2000 mean_10_null)

section \<open>Properties of the statistics engine\<close>

lemma valid_values_length:
  "length (filter is_valid (map s_value dataPoints))
     = length (filter (\<lambda>d. s_value d \<notin> {Null, Undefined, Number NaN}) dataPoints)"
  by (induction dataPoints) (simp_all add: is_valid_iff)

lemma computeStats_exceedance:
  fixes x :: jsnum
  assumes "filter is_valid (map s_value dataPoints) \<noteq> []"
  defines "vals \<equiv> filter is_valid (map s_value dataPoints)"
  defines "c \<equiv> length (filter (\<lambda>v. js_gt (toNumber v) x) vals)"
  defines "p \<equiv> round_double (real c / real (length vals))"
  shows "stats_exceedance (computeStats dataPoints (Number x))
           = Some \<lparr> e_threshold = Number x,
                    e_probability = Fin p,
                    e_count = c,
                    e_percentage =
                      SDigits False (nat \<lfloor>round_double (p * 100) * 10 + 1 / 2\<rfloor>) 1 \<rparr>"
    and "stats_count (computeStats dataPoints (Number x)) = length vals"
    and "\<bar>p - real c / real (length vals)\<bar> \<le> 1 / 2 ^ 53"
    and "\<bar>round_double (p * 100) - real c / real (length vals) * 100\<bar> \<le> 1 / 2 ^ 45"
proof -
  have "vals \<noteq> []" using assms(1) unfolding vals_def .
  then have pos: "0 < length vals" by simp
  have le: "c \<le> length vals" by (simp add: c_def)
  note pd = percent_double [OF pos le, folded p_def]
  have pr: "js_div (js_nat c) (js_nat (length vals)) = Fin p" by (rule pd(1))
  have pc: "toFixed 1 (js_mul (Fin p) (Fin 100))
              = SDigits False (nat \<lfloor>round_double (p * 100) * 10 + 1 / 2\<rfloor>) 1"
    using pd(2) pd(6) unfolding pr by simp
  have thr: "(if Number x = Undefined then Null else Number x) = Number x" by simp
  have nn: "(Number x = Null) = False" by simp
  have len0: "(length vals = 0) = False" using pos by simp
  show "stats_exceedance (computeStats dataPoints (Number x))
           = Some \<lparr> e_threshold = Number x,
                    e_probability = Fin p,
                    e_count = c,
                    e_percentage =
                      SDigits False (nat \<lfloor>round_double (p * 100) * 10 + 1 / 2\<rfloor>) 1 \<rparr>"
    unfolding computeStats_def Let_def vals_def [symmetric] thr
    by (simp only: len0 if_False nn if_True not_False_eq_True stats_exceedance.simps
        stats.select_convs toNumber.simps c_def [symmetric] pr pc)
  show "stats_count (computeStats dataPoints (Number x)) = length vals"
    unfolding computeStats_def Let_def vals_def [symmetric] thr
    by (simp only: len0 if_False stats_count.simps stats.select_convs)
  show "\<bar>p - real c / real (length vals)\<bar> \<le> 1 / 2 ^ 53" by (rule pd(8))
  show "\<bar>round_double (p * 100) - real c / real (length vals) * 100\<bar> \<le> 1 / 2 ^ 45"
    by (rule pd(5))
qed

lemma count_valid_filter:
  "length (filter P (filter is_valid (map s_value dataPoints)))
     = length (filter (\<lambda>d. is_valid (s_value d) \<and> P (s_value d)) dataPoints)"
  by (induction dataPoints) simp_all

lemma exceeds_iff: "is_valid v \<and> js_gt (toNumber v) (Fin t) \<longleftrightarrow> exceeds t v"
  by (cases "(t, v)" rule: exceeds.cases) (simp_all add: is_valid_def js_isNaN_def js_gt_def)

lemma exceed_count_finite:
  "length (filter (\<lambda>v. js_gt (toNumber v) (Fin t)) (filter is_valid (map s_value dataPoints)))
     = length (filter (\<lambda>d. exceeds t (s_value d)) dataPoints)"
  by (simp only: count_valid_filter exceeds_iff)

text \<open>
  C5, as the claim states it, counts the valid values strictly greater than the
  threshold, where the specification reads "valid" as a present, finite numeric value.
  The filter of the code is \<^verbatim>\<open>!isNaN\<close>, which an infinite value passes: for the two
  samples of value 5 and \<^verbatim>\<open>Infinity\<close> and the threshold 10 the code counts one exceeding
  value, while no finite value exceeds 10.
\<close>

theorem computeStats_infinite_value_counterexample:
  "map_option e_count (stats_exceedance (computeStats inf_pair (Number (Fin 10))))
     \<noteq> Some (spec_exceed_count 10 inf_pair)"
  by (simp add: computeStats_def inf_pair_def point_def is_valid_def js_isNaN_def Let_def
      js_gt_def)

text \<open>
  C5, amended. For every sample sequence with at least one valid value, "valid" meaning
  not \<^verbatim>\<open>null\<close>, not \<^verbatim>\<open>undefined\<close> and not \<open>NaN\<close>, and every finite threshold \<open>t\<close>, zero
  included, \<^verbatim>\<open>computeStats\<close> returns the full statistics with an exceedance record: its
  count \<open>c\<close> is the number of valid values strictly greater than \<open>t\<close>, \<^verbatim>\<open>Infinity\<close>
  included; its probability is the double \<open>p\<close> nearest to \<open>c\<close> divided by the number \<open>n\<close>
  of valid values; and its percentage is the double \<open>x\<close> nearest to \<open>p * 100\<close>, which is
  within \<open>2 ^ - 45\<close> of the exact percentage, rendered to one decimal place. With 23 of 80
  values above the threshold the rendered percentage is 28.7.
\<close>

theorem computeStats_exceedance_finite:
  "\<exists>d \<in> set dataPoints. s_value d \<notin> {Null, Undefined, Number NaN} \<Longrightarrow>
   (let n = length (filter (\<lambda>d. s_value d \<notin> {Null, Undefined, Number NaN}) dataPoints);
        c = length (filter (\<lambda>d. exceeds t (s_value d)) dataPoints);
        p = round_double (real c / real n);
        x = round_double (p * 100)
    in stats_count (computeStats dataPoints (Number (Fin t))) = n
       \<and> stats_exceedance (computeStats dataPoints (Number (Fin t)))
           = Some \<lparr> e_threshold = Number (Fin t),
                    e_probability = Fin p,
                    e_count = c,
                    e_percentage = SDigits False (nat \<lfloor>x * 10 + 1 / 2\<rfloor>) 1 \<rparr>
       \<and> \<bar>p - real c / real n\<bar> \<le> 1 / 2 ^ 53
       \<and> \<bar>x - real c / real n * 100\<bar> \<le> 1 / 2 ^ 45)"
proof -
  assume "\<exists>d \<in> set dataPoints. s_value d \<notin> {Null, Undefined, Number NaN}"
  then have ne: "filter is_valid (map s_value dataPoints) \<noteq> []"
    by (auto simp: filter_empty_conv is_valid_iff)
  show ?thesis
    unfolding Let_def
    using computeStats_exceedance [OF ne, of "Fin t"]
    by (simp only: valid_values_length exceed_count_finite simp_thms)
qed

theorem computeStats_exceedance_finite_witness:
  "(\<exists>d \<in> set above_23_of_80. s_value d \<notin> {Null, Undefined, Number NaN})
   \<and> stats_count (computeStats above_23_of_80 (Number (Fin 5))) = 80
   \<and> stats_exceedance (computeStats above_23_of_80 (Number (Fin 5)))
       = Some \<lparr> e_threshold = Number (Fin 5), e_probability = Fin (round_double (23 / 80)),
                e_count = 23, e_percentage = SDigits False 287 1 \<rparr>"
proof -
  have h: "\<exists>d \<in> set above_23_of_80. s_value d \<notin> {Null, Undefined, Number NaN}"
    by (simp add: above_23_of_80_def point_def)
  show ?thesis
    using h computeStats_exceedance_finite [OF h, of 5]
    by (simp add: above_23_of_80_def point_def Let_def percent_23_of_80)
qed

lemma exceed_count_nonfinite:
  assumes "x \<in> {NaN, PInf, NInf}"
  shows "length (filter (\<lambda>v. js_gt (toNumber v) x) (filter is_valid (map s_value dataPoints)))
     = (if x = NInf
        then length (filter (\<lambda>d. s_value d \<notin> {Null, Undefined, Number NaN, Number NInf})
                       dataPoints)
        else 0)"
proof -
  have a: "is_valid v \<and> js_gt (toNumber v) NInf
           \<longleftrightarrow> v \<notin> {Null, Undefined, Number NaN, Number NInf}" for v
  proof (cases v)
    case (Number y)
    then show ?thesis
      by (cases y) (simp_all add: is_valid_def js_isNaN_def js_gt_def)
  qed (simp_all add: is_valid_def)
  have b: "\<not> js_gt y NaN" "\<not> js_gt y PInf" for y
    by (cases y; simp add: js_gt_def)+
  from assms consider "x = NaN" | "x = PInf" | "x = NInf" by auto
  then show ?thesis
  proof cases
    case 1
    then show ?thesis unfolding count_valid_filter by (simp add: b)
  next
    case 2
    then show ?thesis unfolding count_valid_filter by (simp add: b)
  next
    case 3
    then show ?thesis unfolding count_valid_filter by (simp add: a)
  qed
qed

text \<open>
  C6, as the claim states it: a threshold that is not finite makes \<^verbatim>\<open>computeStats\<close> skip
  the exceedance. The only test of the code is \<^verbatim>\<open>threshold !== null\<close>, which \<open>NaN\<close> passes:
  for one sample of value 5 and the threshold \<open>NaN\<close> the result carries an exceedance
  record.
\<close>

theorem computeStats_nan_threshold_counterexample:
  "stats_exceedance (computeStats [point 2000 (Number (Fin 5))] (Number NaN)) \<noteq> None"
  by (simp add: computeStats_def point_def is_valid_def js_isNaN_def Let_def)

text \<open>
  C6, amended. For every sample sequence with at least one valid value and a threshold
  that is \<open>NaN\<close> or infinite, \<^verbatim>\<open>computeStats\<close> does not fault and does not skip the
  exceedance: the record is present, carries the threshold, and counts the valid values
  strictly greater than it, which is none for \<open>NaN\<close> and \<open>+Infinity\<close> and every valid value
  other than \<open>-Infinity\<close> for \<open>-Infinity\<close>; the probability is the double \<open>p\<close> nearest to
  the count divided by the number of valid values, and the percentage is the double
  nearest to \<open>p * 100\<close> rendered to one decimal place, as for a finite threshold. With 23
  finite values, 57 values \<open>-Infinity\<close> and the threshold \<open>-Infinity\<close> the rendered
  percentage is 28.7.
\<close>

theorem computeStats_exceedance_nonfinite:
  "\<exists>d \<in> set dataPoints. s_value d \<notin> {Null, Undefined, Number NaN} \<Longrightarrow>
   x \<in> {NaN, PInf, NInf} \<Longrightarrow>
   (let n = length (filter (\<lambda>d. s_value d \<notin> {Null, Undefined, Number NaN}) dataPoints);
        c = (if x = NInf
             then length (filter (\<lambda>d. s_value d \<notin> {Null, Undefined, Number NaN, Number NInf})
                            dataPoints)
             else 0);
        p = round_double (real c / real n);
        y = round_double (p * 100)
    in stats_exceedance (computeStats dataPoints (Number x))
           = Some \<lparr> e_threshold = Number x,
                    e_probability = Fin p,
                    e_count = c,
                    e_percentage = SDigits False (nat \<lfloor>y * 10 + 1 / 2\<rfloor>) 1 \<rparr>
       \<and> \<bar>p - real c / real n\<bar> \<le> 1 / 2 ^ 53
       \<and> \<bar>y - real c / real n * 100\<bar> \<le> 1 / 2 ^ 45)"
proof -
  assume "\<exists>d \<in> set dataPoints. s_value d \<notin> {Null, Undefined, Number NaN}"
    and x: "x \<in> {NaN, PInf, NInf}"
  then have ne: "filter is_valid (map s_value dataPoints) \<noteq> []"
    by (auto simp: filter_empty_conv is_valid_iff)
  show ?thesis
    unfolding Let_def
    using computeStats_exceedance(1,3,4) [OF ne, of x]
    by (simp only: valid_values_length exceed_count_nonfinite [OF x] simp_thms)
qed

theorem computeStats_exceedance_nonfinite_witness:
  "(\<exists>d \<in> set neg_inf_57_of_80. s_value d \<notin> {Null, Undefined, Number NaN})
   \<and> NInf \<in> {NaN, PInf, NInf}
   \<and> stats_exceedance (computeStats neg_inf_57_of_80 (Number NInf))
       = Some \<lparr> e_threshold = Number NInf, e_probability = Fin (round_double (23 / 80)),
                e_count = 23, e_percentage = SDigits False 287 1 \<rparr>"
proof -
  have h: "\<exists>d \<in> set neg_inf_57_of_80. s_value d \<notin> {Null, Undefined, Number NaN}"
    by (simp add: neg_inf_57_of_80_def point_def)
  have i: "NInf \<in> {NaN, PInf, NInf}" by simp
  show ?thesis
    using h computeStats_exceedance_nonfinite [OF h i]
    by (simp add: neg_inf_57_of_80_def point_def Let_def percent_23_of_80)
qed

section \<open>Properties of the percentile and the median\<close>












section \<open>Properties of the sample window assembler\<close>

lemma mock_sample_key:
  "(s_year (fst (mock_sample rnd dateOf variable year day i)),
    s_dayOfYear (fst (mock_sample rnd dateOf variable year day i)))
   = (if day < 1 then (Some (year - 1), 365 + day)
      else if 365 < day then (Some (year + 1), day - 365)
      else (Some year, day))"
  by (simp add: mock_sample_def Let_def split: prod.splits)

lemma day_loop_keys:
  "map (\<lambda>s. (s_year s, s_dayOfYear s)) (fst (day_loop rnd dateOf variable year day hi st))
   = map (\<lambda>s. (s_year s, s_dayOfYear s)) (fst st)
     @ map (\<lambda>offset. if offset < 1 then (Some (year - 1), 365 + offset)
                      else if 365 < offset then (Some (year + 1), offset - 365)
                      else (Some year, offset)) [day..hi]"
proof (induction rnd dateOf variable year day hi st rule: day_loop.induct)
  case (1 rnd dateOf variable year day hi data i)
  show ?case
  proof (cases "day \<le> hi")
    case False
    then show ?thesis by (simp add: day_loop.simps)
  next
    case True
    obtain smp i' where m: "mock_sample rnd dateOf variable year day i = (smp, i')"
      by (cases "mock_sample rnd dateOf variable year day i")
    have k: "(s_year smp, s_dayOfYear smp)
             = (if day < 1 then (Some (year - 1), 365 + day)
                else if 365 < day then (Some (year + 1), day - 365)
                else (Some year, day))"
      using mock_sample_key [of rnd dateOf variable year day i] by (simp add: m)
    have u: "[day..hi] = day # [day + 1..hi]" using True by (simp add: upto_rec1)
    have "day_loop rnd dateOf variable year day hi (data, i)
          = day_loop rnd dateOf variable year (day + 1) hi (data @ [smp], i')"
      using True by (subst day_loop.simps) (simp add: m)
    then show ?thesis
      using "1.IH" [OF True m [symmetric]] k by (simp add: u)
  qed
qed

lemma year_loop_keys:
  "map (\<lambda>s. (s_year s, s_dayOfYear s))
       (fst (year_loop rnd dateOf variable dayOfYear window year yend st))
   = map (\<lambda>s. (s_year s, s_dayOfYear s)) (fst st)
     @ concat (map (\<lambda>y. map (\<lambda>offset. if offset < 1 then (Some (y - 1), 365 + offset)
                                       else if 365 < offset then (Some (y + 1), offset - 365)
                                       else (Some y, offset))
                              [dayOfYear - window..dayOfYear + window]) [year..yend])"
proof (induction rnd dateOf variable dayOfYear window year yend st rule: year_loop.induct)
  case (1 rnd dateOf variable dayOfYear window year yend st)
  show ?case
  proof (cases "year \<le> yend")
    case False
    then show ?thesis by (simp add: year_loop.simps)
  next
    case True
    have u: "[year..yend] = year # [year + 1..yend]" using True by (simp add: upto_rec1)
    obtain data i where st: "st = (data, i)" by (cases st)
    show ?thesis
      using True "1.IH" [OF True]
      by (subst year_loop.simps) (simp add: u day_loop_keys)
  qed
qed

text \<open>
  C8. The samples \<^verbatim>\<open>generateMockData\<close> returns are, year by year over the inclusive
  year range and offset by offset over the inclusive interval from
  \<open>targetDay - windowDays\<close> to \<open>targetDay + windowDays\<close>, exactly one sample each: of day
  \<open>365 + offset\<close> of the year before when the offset is below 1, of day \<open>offset - 365\<close> of
  the year after when it is above 365, of day \<open>offset\<close> of that year otherwise. With
  \<open>targetDay = 1\<close> and \<open>windowDays = 3\<close> these are the days 363 to 365 of the year before
  and the days 1 to 4 of the year, for every year of the range.
\<close>

theorem generateMockData_window:
  "map (\<lambda>s. (s_year s, s_dayOfYear s))
       (generateMockData rnd dateOf lat lon variable targetDay windowDays yearRange)
   = concat (map (\<lambda>year. map (\<lambda>offset. if offset < 1 then (Some (year - 1), 365 + offset)
                                          else if 365 < offset then (Some (year + 1), offset - 365)
                                          else (Some year, offset))
                                [targetDay - windowDays..targetDay + windowDays])
                 [yr_start yearRange..yr_end yearRange])
   \<and> map (\<lambda>s. (s_year s, s_dayOfYear s))
         (generateMockData rnd dateOf lat lon variable 1 3 yearRange)
     = concat (map (\<lambda>year. [(Some (year - 1), 363), (Some (year - 1), 364), (Some (year - 1), 365),
                             (Some year, 1), (Some year, 2), (Some year, 3), (Some year, 4)])
                   [yr_start yearRange..yr_end yearRange])"
proof -
  show ?thesis
    by (simp add: generateMockData_def year_loop_keys upto_rec1)
qed

end
